theory Spec2Isabelle
  imports Complex_Main "HOL-Library.AList"
begin

section \<open>The payment server (src/server/index.ts)\<close>

subsection \<open>JSON values and request bodies\<close>

text \<open>
  A request body is whatever \<^verbatim>\<open>c.req.json()\<close> yields: the promise either rejects (the
  text is not JSON) or resolves to an arbitrary JSON value; nothing in the server checks
  that the value is an object. Numbers are carried as data only, no arithmetic is done
  on them.
\<close>

datatype json =
    JNull
  | JBool bool
  | JNum rat
  | JStr string
  | JArr "json list"
  | JObj "(string \<times> json) list"

datatype json_result = Rejects | Resolves json

datatype js_error = TypeError

text \<open>
  \<^verbatim>\<open>async function parsePaymentRequest<T>(c, fallback)\<close>: the parsed value, or the
  fallback when parsing throws.
\<close>

definition parsePaymentRequest :: "json_result \<Rightarrow> json \<Rightarrow> json" where
  "parsePaymentRequest req fallback =
     (case req of Resolves v \<Rightarrow> v | Rejects \<Rightarrow> fallback)"

text \<open>
  The property read \<^verbatim>\<open>body.key\<close> for the three keys the handlers read
  (\<^verbatim>\<open>walletAddress\<close>, \<^verbatim>\<open>transactionHash\<close>, \<^verbatim>\<open>metadata\<close>): reading a property of
  \<^verbatim>\<open>null\<close> throws a TypeError, an object gives its own property or \<^verbatim>\<open>undefined\<close>
  (\<open>None\<close>), and primitives and arrays have no property of these names.
\<close>

fun get_prop :: "json \<Rightarrow> string \<Rightarrow> js_error + json option" where
  "get_prop JNull k = Inl TypeError"
| "get_prop (JObj kvs) k = Inr (map_of kvs k)"
| "get_prop (JBool b) k = Inr None"
| "get_prop (JNum n) k = Inr None"
| "get_prop (JStr s) k = Inr None"
| "get_prop (JArr xs) k = Inr None"

subsection \<open>Sessions, payment records and the server state\<close>

text \<open>
  A \<^verbatim>\<open>Date\<close> is its time value, an integral number of milliseconds, and comparing
  two dates compares their time values. Clock readings are taken to lie well inside the
  range of valid dates (8.64e15 ms either side of the epoch), where adding a lifetime is
  exact. The optional fields of the interfaces are \<open>option\<close>s with \<open>None\<close> for
  \<^verbatim>\<open>undefined\<close>.
\<close>

datatype session_type = Hour24 | Onetime

record session =
  id :: string
  createdAt :: int
  expiresAt :: int
  type :: session_type
  used :: "bool option"
  walletAddress :: "json option"
  transactionHash :: "json option"

record paymentRecord =
  id :: string
  type :: session_type
  amountUsd :: rat
  walletAddress :: "json option"
  transactionHash :: "json option"
  metadata :: "json option"
  createdAt :: int

text \<open>
  The module-level state: the constants \<^verbatim>\<open>network\<close> and \<^verbatim>\<open>payTo\<close>, the
  \<^verbatim>\<open>sessions\<close> Map (an association list in insertion order, as a JavaScript Map
  iterates) and the \<^verbatim>\<open>payments\<close> array.
\<close>

record server =
  network :: string
  payTo :: string
  sessions :: "(string \<times> session) list"
  payments :: "paymentRecord list"

definition MAX_PAYMENT_HISTORY :: nat where
  "MAX_PAYMENT_HISTORY = 100"

text \<open>\<^verbatim>\<open>recordPayment\<close>: push, then shift once when the length exceeds the cap.\<close>

definition recordPayment :: "paymentRecord \<Rightarrow> paymentRecord list \<Rightarrow> paymentRecord list" where
  "recordPayment entry ps =
     (let ps' = ps @ [entry]
      in if length ps' > MAX_PAYMENT_HISTORY then tl ps' else ps')"

definition sessions_get :: "server \<Rightarrow> string \<Rightarrow> session option" where
  "sessions_get srv sid = map_of (sessions srv) sid"

definition sessions_set :: "string \<Rightarrow> session \<Rightarrow> server \<Rightarrow> server" where
  "sessions_set sid s srv = srv\<lparr>sessions := AList.update sid s (sessions srv)\<rparr>"

subsection \<open>Responses\<close>

text \<open>
  \<^verbatim>\<open>toISOString()\<close> renders a time value as text; the rendering is kept symbolic.
  A key whose value is \<^verbatim>\<open>undefined\<close> is left out of the JSON text, so an absent key
  and an undefined one are both \<open>None\<close>.
\<close>

datatype iso_string = ISO int

definition toISOString :: "int \<Rightarrow> iso_string" where
  "toISOString t = ISO t"

record session_view =
  id :: string
  type :: session_type
  createdAt :: iso_string
  expiresAt :: "iso_string option"
  validFor :: "string option"
  used :: "bool option"
  remainingTime :: "int option"
  walletAddress :: "json option"
  transactionHash :: "json option"

record payment_view =
  amountUsd :: rat
  walletAddress :: "json option"
  transactionHash :: "json option"
  metadata :: "json option"

text \<open>
  The purchase response; \<open>grant\<close> is the member \<^verbatim>\<open>session\<close> of /api/pay/session and the
  member \<^verbatim>\<open>access\<close> of /api/pay/onetime.
\<close>

record pay_response =
  success :: bool
  sessionId :: string
  message :: string
  grant :: session_view
  payment :: payment_view

record validate_response =
  status :: nat
  valid :: bool
  error :: "string option"
  session :: "session_view option"

record payment_option =
  name :: string
  endpoint :: string
  price :: string
  description :: string

record payment_json =
  id :: string
  type :: session_type
  amountUsd :: rat
  walletAddress :: "json option"
  transactionHash :: "json option"
  metadata :: "json option"
  createdAt :: iso_string

datatype response =
    Health string string string
  | PaymentOptions "payment_option list"
  | Paid pay_response
  | Validation validate_response
  | SessionList "session_view list"
  | PaymentList "payment_json list"

subsection \<open>The handlers\<close>

text \<open>
  Each handler takes what it reads from outside (the outcome of parsing the body, the
  identifier \<^verbatim>\<open>uuidv4()\<close> returns, the clock reading of \<^verbatim>\<open>new Date()\<close>) and the
  server state, and returns the response, or the error thrown out of the handler, with
  the new state.
\<close>

definition get_health :: "server \<Rightarrow> (js_error + response) \<times> server" where
  "get_health srv = (Inr (Health (network srv) (payTo srv) ''simulated-payments''), srv)"

definition get_payment_options :: "server \<Rightarrow> (js_error + response) \<times> server" where
  "get_payment_options srv =
     (Inr (PaymentOptions
        [\<lparr>name = ''24-Hour Access'', endpoint = ''/api/pay/session'', price = ''$1.00'',
          description = ''Get a session ID for 24 hours of unlimited access''\<rparr>,
         \<lparr>name = ''One-Time Access'', endpoint = ''/api/pay/onetime'', price = ''$0.10'',
          description = ''Single use payment for immediate access''\<rparr>]), srv)"

text \<open>POST /api/pay/session.\<close>

definition post_pay_session ::
  "json_result \<Rightarrow> string \<Rightarrow> int \<Rightarrow> server \<Rightarrow> (js_error + response) \<times> server" where
  "post_pay_session req sid now srv =
     (let body = parsePaymentRequest req (JObj []);
          expires = now + 24 * 60 * 60 * 1000
      in case get_prop body ''walletAddress'' of Inl e \<Rightarrow> (Inl e, srv) | Inr wallet \<Rightarrow>
        (case get_prop body ''transactionHash'' of Inl e \<Rightarrow> (Inl e, srv) | Inr tx \<Rightarrow>
         let s = \<lparr>session.id = sid, createdAt = now, expiresAt = expires,
                   type = Hour24, used = None, walletAddress = wallet, transactionHash = tx\<rparr>;
             srv1 = sessions_set sid s srv
         in (case get_prop body ''metadata'' of Inl e \<Rightarrow> (Inl e, srv1) | Inr md \<Rightarrow>
         let srv2 = srv1\<lparr>payments := recordPayment
                      \<lparr>paymentRecord.id = sid, type = Hour24, amountUsd = 1,
                        walletAddress = wallet, transactionHash = tx, metadata = md,
                        createdAt = now\<rparr> (payments srv1)\<rparr>
         in (Inr (Paid
              \<lparr>success = True, sessionId = sid, message = ''24-hour access granted!'',
                grant = \<lparr>session_view.id = sid, type = Hour24,
                          createdAt = toISOString now, expiresAt = Some (toISOString expires),
                          validFor = Some ''24 hours'', used = None, remainingTime = None,
                          walletAddress = session.walletAddress s,
                          transactionHash = session.transactionHash s\<rparr>,
                payment = \<lparr>payment_view.amountUsd = 1, walletAddress = wallet,
                            transactionHash = tx, metadata = md\<rparr>\<rparr>), srv2))))"

text \<open>POST /api/pay/onetime.\<close>

definition post_pay_onetime ::
  "json_result \<Rightarrow> string \<Rightarrow> int \<Rightarrow> server \<Rightarrow> (js_error + response) \<times> server" where
  "post_pay_onetime req sid now srv =
     (let body = parsePaymentRequest req (JObj [])
      in case get_prop body ''walletAddress'' of Inl e \<Rightarrow> (Inl e, srv) | Inr wallet \<Rightarrow>
        (case get_prop body ''transactionHash'' of Inl e \<Rightarrow> (Inl e, srv) | Inr tx \<Rightarrow>
         let s = \<lparr>session.id = sid, createdAt = now, expiresAt = now + 5 * 60 * 1000,
                   type = Onetime, used = Some False, walletAddress = wallet,
                   transactionHash = tx\<rparr>;
             srv1 = sessions_set sid s srv
         in (case get_prop body ''metadata'' of Inl e \<Rightarrow> (Inl e, srv1) | Inr md \<Rightarrow>
         let srv2 = srv1\<lparr>payments := recordPayment
                      \<lparr>paymentRecord.id = sid, type = Onetime, amountUsd = 1 / 10,
                        walletAddress = wallet, transactionHash = tx, metadata = md,
                        createdAt = now\<rparr> (payments srv1)\<rparr>
         in (Inr (Paid
              \<lparr>success = True, sessionId = sid, message = ''One-time access granted!'',
                grant = \<lparr>session_view.id = sid, type = Onetime,
                          createdAt = toISOString now, expiresAt = None,
                          validFor = Some ''5 minutes (single use)'', used = None,
                          remainingTime = None,
                          walletAddress = session.walletAddress s,
                          transactionHash = session.transactionHash s\<rparr>,
                payment = \<lparr>payment_view.amountUsd = 1 / 10, walletAddress = wallet,
                            transactionHash = tx, metadata = md\<rparr>\<rparr>), srv2))))"

text \<open>
  GET /api/session/:sessionId. \<^verbatim>\<open>c.json(body)\<close> answers with status 200,
  \<^verbatim>\<open>c.json(body, 404)\<close> with 404. \<^verbatim>\<open>session.used\<close> is truthy only when it is
  \<^verbatim>\<open>true\<close>. The body of the handler is \<open>validate\<close>; the handler wraps its answer.
\<close>

definition isExpired :: "int \<Rightarrow> session \<Rightarrow> bool" where
  "isExpired now s = (now > session.expiresAt s)"

definition isUsed :: "session \<Rightarrow> bool" where
  "isUsed s = (session.type s = Onetime \<and> session.used s = Some True)"

definition validate :: "string \<Rightarrow> int \<Rightarrow> server \<Rightarrow> validate_response \<times> server" where
  "validate sid now srv =
     (case sessions_get srv sid of
        None \<Rightarrow>
          (\<lparr>status = 404, valid = False, error = Some ''Session not found'',
            session = None\<rparr>, srv)
      | Some s \<Rightarrow>
          if isExpired now s \<or> isUsed s then
            (\<lparr>status = 200, valid = False,
              error = Some (if isExpired now s then ''Session expired''
                            else ''One-time access already used''),
              session = Some
                \<lparr>session_view.id = session.id s, type = session.type s,
                  createdAt = toISOString (session.createdAt s),
                  expiresAt = Some (toISOString (session.expiresAt s)),
                  validFor = None, used = session.used s, remainingTime = None,
                  walletAddress = session.walletAddress s,
                  transactionHash = session.transactionHash s\<rparr>\<rparr>, srv)
          else
            let s' = (if session.type s = Onetime then s\<lparr>session.used := Some True\<rparr> else s);
                srv' = (if session.type s = Onetime then sessions_set sid s' srv else srv)
            in (\<lparr>status = 200, valid = True, error = None,
                 session = Some
                   \<lparr>session_view.id = session.id s', type = session.type s',
                     createdAt = toISOString (session.createdAt s'),
                     expiresAt = Some (toISOString (session.expiresAt s')),
                     validFor = None, used = None,
                     remainingTime = Some (session.expiresAt s' - now),
                     walletAddress = session.walletAddress s',
                     transactionHash = session.transactionHash s'\<rparr>\<rparr>, srv'))"

definition get_session ::
  "string \<Rightarrow> int \<Rightarrow> server \<Rightarrow> (js_error + response) \<times> server" where
  "get_session sid now srv =
     (let (r, srv') = validate sid now srv in (Inr (Validation r), srv'))"

text \<open>A run of validation calls, each an identifier and the clock reading of the call.\<close>

fun validate_seq :: "(string \<times> int) list \<Rightarrow> server \<Rightarrow> validate_response list \<times> server" where
  "validate_seq [] srv = ([], srv)"
| "validate_seq (c # cs) srv =
     (let (r, srv1) = validate (fst c) (snd c) srv; (rs, srv2) = validate_seq cs srv1
      in (r # rs, srv2))"

text \<open>
  GET /api/sessions. The filter callback reads the clock once for each session;
  \<open>clock i\<close> is the reading at the i-th session.
\<close>

definition get_sessions :: "(nat \<Rightarrow> int) \<Rightarrow> server \<Rightarrow> (js_error + response) \<times> server" where
  "get_sessions clock srv =
     (let vals = map snd (sessions srv);
          activeSessions =
            map snd (filter (\<lambda>(i, s). \<not> isExpired (clock i) s \<and> \<not> isUsed s)
                       (enumerate 0 vals))
      in (Inr (SessionList (map (\<lambda>s.
             \<lparr>session_view.id = session.id s, type = session.type s,
               createdAt = toISOString (session.createdAt s),
               expiresAt = Some (toISOString (session.expiresAt s)),
               validFor = None, used = None, remainingTime = None,
               walletAddress = session.walletAddress s,
               transactionHash = session.transactionHash s\<rparr>) activeSessions)), srv))"

text \<open>
  GET /api/payments: a copy of the array, sorted (stably) by \<^verbatim>\<open>createdAt\<close> descending,
  cut to 25 entries.
\<close>

definition get_payments :: "server \<Rightarrow> (js_error + response) \<times> server" where
  "get_payments srv =
     (let recentPayments =
            take 25 (sort_key (\<lambda>p. - paymentRecord.createdAt p) (payments srv))
      in (Inr (PaymentList (map (\<lambda>p.
             \<lparr>payment_json.id = paymentRecord.id p, type = paymentRecord.type p,
               amountUsd = paymentRecord.amountUsd p,
               walletAddress = paymentRecord.walletAddress p,
               transactionHash = paymentRecord.transactionHash p,
               metadata = paymentRecord.metadata p,
               createdAt = toISOString (paymentRecord.createdAt p)\<rparr>) recentPayments)), srv))"

text \<open>The routes of the server, and a run of requests handled one after the other.\<close>

datatype request =
    GetHealth
  | GetPaymentOptions
  | PostPaySession json_result string int
  | PostPayOnetime json_result string int
  | GetSession string int
  | GetSessions "nat \<Rightarrow> int"
  | GetPayments

fun handle :: "request \<Rightarrow> server \<Rightarrow> (js_error + response) \<times> server" where
  "handle GetHealth srv = get_health srv"
| "handle GetPaymentOptions srv = get_payment_options srv"
| "handle (PostPaySession req sid now) srv = post_pay_session req sid now srv"
| "handle (PostPayOnetime req sid now) srv = post_pay_onetime req sid now srv"
| "handle (GetSession sid now) srv = get_session sid now srv"
| "handle (GetSessions clock) srv = get_sessions clock srv"
| "handle GetPayments srv = get_payments srv"

fun run :: "request list \<Rightarrow> server \<Rightarrow> (js_error + response) list \<times> server" where
  "run [] srv = ([], srv)"
| "run (r # rs) srv =
     (let (out, srv1) = handle r srv; (outs, srv2) = run rs srv1 in (out # outs, srv2))"

definition boot :: "string \<Rightarrow> string \<Rightarrow> server" where
  "boot net addr = \<lparr>network = net, payTo = addr, sessions = [], payments = []\<rparr>"

subsection \<open>Example states\<close>

text \<open>
  A server that has sold a 24-hour session \<open>D\<close> and a one-time access \<open>S\<close>, both at
  time 0.
\<close>

definition srv_demo :: server where
  "srv_demo =
     snd (post_pay_onetime Rejects ''S'' 0
       (snd (post_pay_session (Resolves (JObj [(''walletAddress'', JStr ''0xABC'')])) ''D'' 0
          (boot ''monad-testnet'' ''0x000000000000000000000000000000000000dEaD''))))"

text \<open>A ledger that holds exactly 100 entries, created at times 1 to 100.\<close>

definition ledger_entry :: "nat \<Rightarrow> paymentRecord" where
  "ledger_entry n = \<lparr>paymentRecord.id = ''p'', type = Onetime, amountUsd = 1 / 10,
      walletAddress = None, transactionHash = None, metadata = None, createdAt = int n\<rparr>"

definition full_ledger :: "paymentRecord list" where
  "full_ledger = map ledger_entry [1..<101]"

section \<open>The wallet connector (src/client/src/contexts/WalletContext.tsx)\<close>

subsection \<open>Providers, requests and errors\<close>

text \<open>
  \<^verbatim>\<open>window.ethereum\<close> is undefined, a provider object (which may carry a
  \<^verbatim>\<open>providers\<close> array) or an array of providers. A provider is a handle of type
  \<open>'p\<close>; what it answers comes from outside.
\<close>

datatype 'p injected =
    Undefined
  | Single 'p "'p list option"
  | Many "'p list"

record native_currency =
  name :: string
  symbol :: string
  decimals :: nat

record chain_definition =
  chainId :: string
  chainName :: string
  nativeCurrency :: native_currency
  rpcUrls :: "string list"
  blockExplorerUrls :: "string list"

datatype params = NoParams | SwitchChain string | AddChain chain_definition

text \<open>
  A rejected request throws the provider's error object: an optional \<^verbatim>\<open>code\<close> and an
  optional \<^verbatim>\<open>message\<close>.
\<close>

record rpc_error =
  code :: "int option"
  message :: "string option"

text \<open>
  The user-facing messages of \<^verbatim>\<open>connectWallet\<close>, by the line of the source that
  builds them (the literals are Chinese text): line 71 asks to install a wallet, 95 says
  the user cancelled the connection request, 100 is "connection failed: " followed by the
  provider's message, 103 says the wallet cannot be reached, 109 says no account was
  found, 120 that the network cannot be read, 152 and 154 that adding the network was
  cancelled or failed, 157 that switching was cancelled, and 160 is "switching failed: "
  followed by the provider's message, or by "unknown error" (\<open>None\<close>) when it has none.
  \<open>ConnectFailedTypeError\<close> is line 100 with the text of the TypeError that
  \<^verbatim>\<open>ethereum.request\<close> throws when the selected provider is undefined; that text depends
  on the engine and contains neither "rejected" nor "denied".
\<close>

datatype ui_message =
    InstallWallet
  | UserCancelledConnect
  | ConnectFailed string
  | ConnectFailedTypeError
  | CannotConnect
  | NoAccounts
  | CannotGetNetwork
  | UserCancelledAddNetwork
  | CannotAddNetwork
  | UserCancelledSwitch
  | SwitchFailed "string option"

record 'p wallet_client =
  account :: string
  transport :: 'p

text \<open>The React state of the provider component, and the effects of a call in order.\<close>

record 'p wallet_state =
  isConnected :: bool
  address :: "string option"
  walletClient :: "'p wallet_client option"
  error :: "ui_message option"
  isConnecting :: bool

datatype 'p effect =
    SetError "ui_message option"
  | SetIsConnecting bool
  | SetWalletClient "'p wallet_client option"
  | SetAddress "string option"
  | SetIsConnected bool
  | Request 'p string params

fun apply_effect :: "'p wallet_state \<Rightarrow> 'p effect \<Rightarrow> 'p wallet_state" where
  "apply_effect s (SetError e) = s\<lparr>error := e\<rparr>"
| "apply_effect s (SetIsConnecting b) = s\<lparr>isConnecting := b\<rparr>"
| "apply_effect s (SetWalletClient c) = s\<lparr>walletClient := c\<rparr>"
| "apply_effect s (SetAddress a) = s\<lparr>address := a\<rparr>"
| "apply_effect s (SetIsConnected b) = s\<lparr>isConnected := b\<rparr>"
| "apply_effect s (Request p m ps) = s"

definition apply_effects :: "'p effect list \<Rightarrow> 'p wallet_state \<Rightarrow> 'p wallet_state" where
  "apply_effects evs s = foldl apply_effect s evs"

fun is_request :: "'p effect \<Rightarrow> bool" where
  "is_request (Request p m ps) = True"
| "is_request _ = False"

definition requests_of :: "'p effect list \<Rightarrow> 'p effect list" where
  "requests_of evs = filter is_request evs"

fun request_method :: "'p effect \<Rightarrow> string" where
  "request_method (Request p m ps) = m"
| "request_method _ = []"

text \<open>\<^verbatim>\<open>String.prototype.includes\<close> with an ASCII pattern.\<close>

fun starts_with :: "string \<Rightarrow> string \<Rightarrow> bool" where
  "starts_with s [] = True"
| "starts_with [] (p # ps) = False"
| "starts_with (c # cs) (p # ps) = (c = p \<and> starts_with cs ps)"

fun str_includes :: "string \<Rightarrow> string \<Rightarrow> bool" where
  "str_includes [] pat = (pat = [])"
| "str_includes (c # cs) pat = (starts_with (c # cs) pat \<or> str_includes cs pat)"

text \<open>\<^verbatim>\<open>err.message?.includes(pat)\<close>: falsy when there is no message.\<close>

definition message_includes :: "rpc_error \<Rightarrow> string \<Rightarrow> bool" where
  "message_includes e pat = (case message e of None \<Rightarrow> False | Some m \<Rightarrow> str_includes m pat)"

subsection \<open>connectWallet, from one await to the next\<close>

definition monadTestnetChainIdHex :: string where
  "monadTestnetChainIdHex = ''0x279F''"

definition monad_testnet_definition :: chain_definition where
  "monad_testnet_definition =
     \<lparr>chainId = monadTestnetChainIdHex, chainName = ''Monad Testnet'',
      nativeCurrency = \<lparr>name = ''Monad'', symbol = ''MON'', decimals = 18\<rparr>,
      rpcUrls = [''https://testnet-rpc.monad.xyz''],
      blockExplorerUrls = [''https://testnet.monadscan.com'']\<rparr>"

text \<open>
  Lines 75 to 82: the first element of an array, or of the \<^verbatim>\<open>providers\<close> array of a
  provider that has one (an empty array is truthy, and its first element is undefined).
\<close>

fun pickProvider :: "'p injected \<Rightarrow> 'p option" where
  "pickProvider Undefined = None"
| "pickProvider (Many ps) = (case ps of [] \<Rightarrow> None | p # _ \<Rightarrow> Some p)"
| "pickProvider (Single p None) = Some p"
| "pickProvider (Single p (Some ps)) = (case ps of [] \<Rightarrow> None | q # _ \<Rightarrow> Some q)"

text \<open>
  An async call runs until its next \<^verbatim>\<open>await\<close> and is resumed by the provider's
  answer. \<open>pending\<close> says where a suspended call waits, with the locals it still needs:
  the provider, and the first account once it is known.
\<close>

datatype 'p pending =
    AwaitAccounts 'p
  | AwaitChainId 'p string
  | AwaitSwitch 'p string
  | AwaitAdd 'p string

text \<open>
  A throw inside the outer \<^verbatim>\<open>try\<close>: every value thrown there is an Error with a
  non-empty message, so the handler at line 187 takes that message; then the
  \<^verbatim>\<open>finally\<close> block runs.
\<close>

definition fail :: "ui_message \<Rightarrow> 'p effect list \<times> 'p pending option" where
  "fail m = ([SetError (Some m), SetIsConnecting False], None)"

text \<open>Lines 166 to 174 and the \<^verbatim>\<open>finally\<close> block.\<close>

definition finish :: "'p \<Rightarrow> string \<Rightarrow> 'p effect list \<times> 'p pending option" where
  "finish eth acct =
     ([SetWalletClient (Some \<lparr>account = acct, transport = eth\<rparr>), SetAddress (Some acct),
       SetIsConnected True, SetIsConnecting False], None)"

text \<open>Lines 65 to 89: the call up to its first \<^verbatim>\<open>await\<close>.\<close>

definition connect_start :: "'p injected \<Rightarrow> 'p effect list \<times> 'p pending option" where
  "connect_start w =
     (let (evs, k) =
        (case w of
           Undefined \<Rightarrow> fail InstallWallet
         | _ \<Rightarrow>
            (case pickProvider w of
               None \<Rightarrow> fail ConnectFailedTypeError
             | Some eth \<Rightarrow>
                 ([Request eth ''eth_requestAccounts'' NoParams], Some (AwaitAccounts eth))))
      in ([SetError None, SetIsConnecting True] @ evs, k))"

text \<open>Lines 90 to 121: the answer to \<^verbatim>\<open>eth_requestAccounts\<close>.\<close>

definition after_accounts ::
  "'p \<Rightarrow> rpc_error + string list \<Rightarrow> 'p effect list \<times> 'p pending option" where
  "after_accounts eth r =
     (case r of
        Inl e \<Rightarrow>
          if code e = Some 4001 \<or> message_includes e ''rejected'' \<or> message_includes e ''denied''
          then fail UserCancelledConnect
          else (case message e of
                  None \<Rightarrow> fail CannotConnect
                | Some m \<Rightarrow> if m \<noteq> [] then fail (ConnectFailed m) else fail CannotConnect)
      | Inr accounts \<Rightarrow>
          (case accounts of
             [] \<Rightarrow> fail NoAccounts
           | acct # _ \<Rightarrow> ([Request eth ''eth_chainId'' NoParams], Some (AwaitChainId eth acct))))"

text \<open>Lines 118 to 130: the answer to \<^verbatim>\<open>eth_chainId\<close>.\<close>

definition after_chainId ::
  "'p \<Rightarrow> string \<Rightarrow> rpc_error + string \<Rightarrow> 'p effect list \<times> 'p pending option" where
  "after_chainId eth acct r =
     (case r of
        Inl e \<Rightarrow> fail CannotGetNetwork
      | Inr cid \<Rightarrow>
          if cid \<noteq> monadTestnetChainIdHex
          then ([Request eth ''wallet_switchEthereumChain'' (SwitchChain monadTestnetChainIdHex)],
                Some (AwaitSwitch eth acct))
          else finish eth acct)"

text \<open>Lines 131 to 162: the answer to \<^verbatim>\<open>wallet_switchEthereumChain\<close>.\<close>

definition after_switch ::
  "'p \<Rightarrow> string \<Rightarrow> rpc_error + unit \<Rightarrow> 'p effect list \<times> 'p pending option" where
  "after_switch eth acct r =
     (case r of
        Inr u \<Rightarrow> finish eth acct
      | Inl e \<Rightarrow>
          if code e = Some 4902
          then ([Request eth ''wallet_addEthereumChain'' (AddChain monad_testnet_definition)],
                Some (AwaitAdd eth acct))
          else if code e = Some 4001 then fail UserCancelledSwitch
          else fail (SwitchFailed
                 (case message e of None \<Rightarrow> None
                  | Some m \<Rightarrow> if m \<noteq> [] then Some m else None)))"

text \<open>Lines 149 to 155: the answer to \<^verbatim>\<open>wallet_addEthereumChain\<close>.\<close>

definition after_add ::
  "'p \<Rightarrow> string \<Rightarrow> rpc_error + unit \<Rightarrow> 'p effect list \<times> 'p pending option" where
  "after_add eth acct r =
     (case r of
        Inr u \<Rightarrow> finish eth acct
      | Inl e \<Rightarrow>
          if code e = Some 4001 then fail UserCancelledAddNetwork else fail CannotAddNetwork)"

subsection \<open>A whole call against a provider\<close>

text \<open>What the selected provider answers to each method.\<close>

record provider_script =
  on_requestAccounts :: "rpc_error + string list"
  on_chainId :: "rpc_error + string"
  on_switch :: "rpc_error + unit"
  on_add :: "rpc_error + unit"

fun resume :: "provider_script \<Rightarrow> 'p pending \<Rightarrow> 'p effect list \<times> 'p pending option" where
  "resume sc (AwaitAccounts eth) = after_accounts eth (on_requestAccounts sc)"
| "resume sc (AwaitChainId eth acct) = after_chainId eth acct (on_chainId sc)"
| "resume sc (AwaitSwitch eth acct) = after_switch eth acct (on_switch sc)"
| "resume sc (AwaitAdd eth acct) = after_add eth acct (on_add sc)"

definition continue ::
  "provider_script \<Rightarrow> 'p effect list \<times> 'p pending option \<Rightarrow> 'p effect list \<times> 'p pending option" where
  "continue sc r =
     (case snd r of
        None \<Rightarrow> r
      | Some p \<Rightarrow> (fst r @ fst (resume sc p), snd (resume sc p)))"

text \<open>
  The call has at most four awaits, one after the other, so four resumptions take it to
  its end; the result is the effects of the call in order and what is still pending.
\<close>

definition connectWallet ::
  "provider_script \<Rightarrow> 'p injected \<Rightarrow> 'p effect list \<times> 'p pending option" where
  "connectWallet sc w = continue sc (continue sc (continue sc (continue sc (connect_start w))))"

subsection \<open>Calls in flight\<close>

text \<open>
  The component between events: its state, the suspended calls, and every effect so far.
  \<open>call_connect\<close> is a call of \<^verbatim>\<open>connectWallet\<close> run to its first await;
  \<open>deliver\<close> resumes the i-th suspended call with the provider's answer and runs it to
  its next await. The setter calls of one such stretch, which runs without a break, are
  committed together when it ends: \<open>state\<close> is the state the component commits, and
  a value that is set and set again inside one stretch is never in it.
\<close>

record 'p client =
  state :: "'p wallet_state"
  inflight :: "'p pending list"
  log :: "'p effect list"

definition call_connect :: "'p injected \<Rightarrow> 'p client \<Rightarrow> 'p client" where
  "call_connect w c =
     (let (evs, k) = connect_start w
      in \<lparr>state = apply_effects evs (state c),
          inflight = inflight c @ (case k of None \<Rightarrow> [] | Some p \<Rightarrow> [p]),
          log = log c @ evs\<rparr>)"

definition deliver :: "provider_script \<Rightarrow> nat \<Rightarrow> 'p client \<Rightarrow> 'p client" where
  "deliver sc i c =
     (if i < length (inflight c) then
        (let (evs, k) = resume sc (inflight c ! i)
         in \<lparr>state = apply_effects evs (state c),
             inflight = take i (inflight c) @ (case k of None \<Rightarrow> [] | Some p \<Rightarrow> [p])
                        @ drop (Suc i) (inflight c),
             log = log c @ evs\<rparr>)
      else c)"

definition initial_state :: "'p wallet_state" where
  "initial_state =
     \<lparr>isConnected = False, address = None, walletClient = None, error = None,
      isConnecting = False\<rparr>"

definition initial_client :: "'p client" where
  "initial_client = \<lparr>state = initial_state, inflight = [], log = []\<rparr>"

subsection \<open>Example providers\<close>

text \<open>
  A wallet on another chain that does not know Monad Testnet and accepts its
  definition.
\<close>

definition unknown_chain_wallet :: provider_script where
  "unknown_chain_wallet =
     \<lparr>on_requestAccounts = Inr [''0xA11CE''],
      on_chainId = Inr ''0x1'',
      on_switch = Inl \<lparr>code = Some 4902, message = Some ''Unrecognized chain ID''\<rparr>,
      on_add = Inr ()\<rparr>"

text \<open>One injected provider, numbered 1, and a component with one call in flight.\<close>

definition one_wallet :: "nat injected" where
  "one_wallet = Single 1 None"

definition connecting_client :: "nat client" where
  "connecting_client = call_connect one_wallet initial_client"

section \<open>Properties of the server\<close>

subsection \<open>The store and the example state\<close>

lemma sessions_get_set:
  "sessions_get (sessions_set k v srv) k' = (if k' = k then Some v else sessions_get srv k')"
  by (simp add: sessions_get_def sessions_set_def update_conv')

lemma payments_sessions_set: "payments (sessions_set k v srv) = payments srv"
  by (simp add: sessions_set_def)

lemma srv_demo_eq:
  "srv_demo =
     \<lparr>network = ''monad-testnet'', payTo = ''0x000000000000000000000000000000000000dEaD'',
      sessions =
        [(''D'', \<lparr>session.id = ''D'', createdAt = 0, expiresAt = 86400000, type = Hour24,
                  used = None, walletAddress = Some (JStr ''0xABC''),
                  transactionHash = None\<rparr>),
         (''S'', \<lparr>session.id = ''S'', createdAt = 0, expiresAt = 300000, type = Onetime,
                  used = Some False, walletAddress = None, transactionHash = None\<rparr>)],
      payments =
        [\<lparr>paymentRecord.id = ''D'', type = Hour24, amountUsd = 1,
          walletAddress = Some (JStr ''0xABC''), transactionHash = None, metadata = None,
          createdAt = 0\<rparr>,
         \<lparr>paymentRecord.id = ''S'', type = Onetime, amountUsd = 1 / 10,
          walletAddress = None, transactionHash = None, metadata = None,
          createdAt = 0\<rparr>]\<rparr>"
  by (simp add: srv_demo_def post_pay_onetime_def post_pay_session_def boot_def
      parsePaymentRequest_def sessions_set_def recordPayment_def MAX_PAYMENT_HISTORY_def)

text \<open>The state \<open>srv_demo\<close> after the one-time access \<open>S\<close> was validated at time 1000.\<close>

lemma srv_demo_consumed:
  "snd (validate ''S'' 1000 srv_demo) =
     sessions_set ''S''
       \<lparr>session.id = ''S'', createdAt = 0, expiresAt = 300000, type = Onetime,
        used = Some True, walletAddress = None, transactionHash = None\<rparr> srv_demo"
  by (simp add: srv_demo_eq validate_def sessions_get_def isExpired_def isUsed_def)

lemma srv_demo_S:
  "sessions_get srv_demo ''S'' =
     Some \<lparr>session.id = ''S'', createdAt = 0, expiresAt = 300000, type = Onetime,
           used = Some False, walletAddress = None, transactionHash = None\<rparr>"
  by (simp add: srv_demo_eq sessions_get_def)

lemma srv_demo_D:
  "sessions_get srv_demo ''D'' =
     Some \<lparr>session.id = ''D'', createdAt = 0, expiresAt = 86400000, type = Hour24,
           used = None, walletAddress = Some (JStr ''0xABC''), transactionHash = None\<rparr>"
  by (simp add: srv_demo_eq sessions_get_def)

subsection \<open>Validation\<close>

text \<open>
  C2. Validation classifies every identifier. An identifier that is not in the store is
  answered with status 404, \<open>valid = False\<close> and the error "Session not found", and the
  state is unchanged. An identifier that is in the store but expired, or one-time and
  already used, is answered with status 200, \<open>valid = False\<close> and a reason that is not
  the not-found one, and the state is unchanged. A 24-hour session is valid exactly while
  it is not expired, and validating it never changes the state.
\<close>

theorem validate_classification:
  "(sessions_get srv sid = None \<longrightarrow>
      validate sid now srv =
        (\<lparr>status = 404, valid = False, error = Some ''Session not found'', session = None\<rparr>,
         srv))
   \<and> (\<forall>s. sessions_get srv sid = Some s \<and> (isExpired now s \<or> isUsed s) \<longrightarrow>
          status (fst (validate sid now srv)) = 200
        \<and> \<not> valid (fst (validate sid now srv))
        \<and> validate_response.error (fst (validate sid now srv)) =
            Some (if isExpired now s then ''Session expired''
                  else ''One-time access already used'')
        \<and> validate_response.error (fst (validate sid now srv)) \<noteq> Some ''Session not found''
        \<and> session (fst (validate sid now srv)) \<noteq> None
        \<and> snd (validate sid now srv) = srv)
   \<and> (\<forall>s. sessions_get srv sid = Some s \<and> session.type s = Hour24 \<longrightarrow>
          status (fst (validate sid now srv)) = 200
        \<and> valid (fst (validate sid now srv)) = (\<not> isExpired now s)
        \<and> snd (validate sid now srv) = srv)"
  by (auto simp: validate_def Let_def isUsed_def)

theorem validate_classification_witness:
  "sessions_get srv_demo ''nobody'' = None
   \<and> validate ''nobody'' 5 srv_demo =
       (\<lparr>status = 404, valid = False, error = Some ''Session not found'', session = None\<rparr>,
        srv_demo)
   \<and> status (fst (validate ''S'' 300001 srv_demo)) = 200
   \<and> \<not> valid (fst (validate ''S'' 300001 srv_demo))
   \<and> validate_response.error (fst (validate ''S'' 300001 srv_demo)) = Some ''Session expired''
   \<and> snd (validate ''S'' 300001 srv_demo) = srv_demo
   \<and> valid (fst (validate ''D'' 86400000 srv_demo))
   \<and> snd (validate ''D'' 86400000 srv_demo) = srv_demo"
proof -
  let ?S = "\<lparr>session.id = ''S'', createdAt = 0, expiresAt = 300000, type = Onetime,
             used = Some False, walletAddress = None, transactionHash = None\<rparr>"
  let ?D = "\<lparr>session.id = ''D'', createdAt = 0, expiresAt = 86400000, type = Hour24,
             used = None, walletAddress = Some (JStr ''0xABC''), transactionHash = None\<rparr>"
  have h1: "sessions_get srv_demo ''nobody'' = None"
    by (simp add: srv_demo_eq sessions_get_def)
  have h2: "sessions_get srv_demo ''S'' = Some ?S \<and> (isExpired 300001 ?S \<or> isUsed ?S)"
    by (simp add: srv_demo_eq sessions_get_def isExpired_def)
  have h3: "sessions_get srv_demo ''D'' = Some ?D \<and> session.type ?D = Hour24"
    by (simp add: srv_demo_eq sessions_get_def)
  have e2: "isExpired 300001 ?S" and e3: "\<not> isExpired 86400000 ?D"
    by (simp_all add: isExpired_def)
  from validate_classification [of srv_demo "''nobody''" 5] h1
  have c1: "validate ''nobody'' 5 srv_demo =
       (\<lparr>status = 404, valid = False, error = Some ''Session not found'', session = None\<rparr>,
        srv_demo)"
    by blast
  from validate_classification [of srv_demo "''S''" 300001] h2 e2
  have c2: "status (fst (validate ''S'' 300001 srv_demo)) = 200
      \<and> \<not> valid (fst (validate ''S'' 300001 srv_demo))
      \<and> validate_response.error (fst (validate ''S'' 300001 srv_demo)) = Some ''Session expired''
      \<and> snd (validate ''S'' 300001 srv_demo) = srv_demo"
    by simp
  from validate_classification [of srv_demo "''D''" 86400000] h3 e3
  have c3: "valid (fst (validate ''D'' 86400000 srv_demo))
      \<and> snd (validate ''D'' 86400000 srv_demo) = srv_demo"
    by simp
  from h1 c1 c2 c3 show ?thesis by simp
qed

text \<open>
  C10. When the session found is both expired and an already used one-time access, the
  answer carries the reason "Session expired", not the already-used one, with status 200
  and \<open>valid = False\<close>; the state is unchanged.
\<close>

theorem expired_takes_priority:
  assumes "sessions_get srv sid = Some s" and "isExpired now s" and "isUsed s"
  shows "status (fst (validate sid now srv)) = 200
       \<and> \<not> valid (fst (validate sid now srv))
       \<and> validate_response.error (fst (validate sid now srv)) = Some ''Session expired''
       \<and> validate_response.error (fst (validate sid now srv)) \<noteq> Some ''One-time access already used''
       \<and> snd (validate sid now srv) = srv"
  using assms by (simp add: validate_def)

theorem expired_takes_priority_witness:
  "validate_response.error (fst (validate ''S'' 300001 (snd (validate ''S'' 1000 srv_demo)))) =
     Some ''Session expired''
   \<and> \<not> valid (fst (validate ''S'' 300001 (snd (validate ''S'' 1000 srv_demo))))"
proof -
  let ?S = "\<lparr>session.id = ''S'', createdAt = 0, expiresAt = 300000, type = Onetime,
             used = Some True, walletAddress = None, transactionHash = None\<rparr>"
  have h1: "sessions_get (snd (validate ''S'' 1000 srv_demo)) ''S'' = Some ?S"
    by (simp add: srv_demo_consumed sessions_get_set)
  have h2: "isExpired 300001 ?S" by (simp add: isExpired_def)
  have h3: "isUsed ?S" by (simp add: isUsed_def)
  from expired_takes_priority [OF h1 h2 h3] show ?thesis by simp
qed

subsection \<open>One-time access is consumed once\<close>

lemma validate_payments: "payments (snd (validate sid now srv)) = payments srv"
  by (simp add: validate_def Let_def payments_sessions_set split: option.splits)

lemma validate_other_key:
  "k \<noteq> sid \<Longrightarrow> sessions_get (snd (validate sid now srv)) k = sessions_get srv k"
  by (simp add: validate_def Let_def sessions_get_set split: option.splits)

lemma validate_same_key:
  "sessions_get srv sid = Some s \<Longrightarrow>
   sessions_get (snd (validate sid now srv)) sid =
     Some (if session.type s = Onetime \<and> \<not> isExpired now s \<and> \<not> isUsed s
           then s\<lparr>session.used := Some True\<rparr> else s)"
  by (simp add: validate_def Let_def sessions_get_set)

lemma validate_keeps_consumed:
  assumes "sessions_get srv sid = Some s" and "isUsed s"
  shows "sessions_get (snd (validate k now srv)) sid = Some s"
proof (cases "k = sid")
  case True
  with assms show ?thesis by (simp add: validate_same_key)
next
  case False
  with assms show ?thesis by (simp add: validate_other_key)
qed

lemma validate_consumed_answer:
  assumes "sessions_get srv sid = Some s" and "isUsed s"
  shows "\<not> valid (fst (validate sid now srv)) \<and>
         validate_response.error (fst (validate sid now srv)) =
           Some (if isExpired now s then ''Session expired''
                 else ''One-time access already used'')"
  using assms by (simp add: validate_def)

lemma validate_seq_length: "length (fst (validate_seq cs srv)) = length cs"
  by (induction cs arbitrary: srv) (simp_all add: split_beta Let_def)

lemma validate_seq_consumed:
  assumes "sessions_get srv sid = Some s" and "isUsed s"
  shows "\<forall>(c, r) \<in> set (zip cs (fst (validate_seq cs srv))). fst c = sid \<longrightarrow>
           \<not> valid r \<and>
           validate_response.error r = Some (if isExpired (snd c) s then ''Session expired''
                           else ''One-time access already used'')"
  using assms
proof (induction cs arbitrary: srv)
  case Nil
  then show ?case by simp
next
  case (Cons c cs)
  have keep: "sessions_get (snd (validate (fst c) (snd c) srv)) sid = Some s"
    using Cons.prems by (rule validate_keeps_consumed)
  have rest: "\<forall>(c', r) \<in> set (zip cs (fst (validate_seq cs (snd (validate (fst c) (snd c) srv))))).
      fst c' = sid \<longrightarrow> \<not> valid r \<and>
        validate_response.error r = Some (if isExpired (snd c') s then ''Session expired''
                        else ''One-time access already used'')"
    using Cons.IH [OF keep Cons.prems(2)] .
  have hd: "fst c = sid \<Longrightarrow> \<not> valid (fst (validate (fst c) (snd c) srv)) \<and>
      validate_response.error (fst (validate (fst c) (snd c) srv)) =
        Some (if isExpired (snd c) s then ''Session expired''
              else ''One-time access already used'')"
    using validate_consumed_answer [OF Cons.prems, of "snd c"] by simp
  show ?case using hd rest by (simp add: split_beta Let_def)
qed

lemma validate_seq_no_valid_after:
  assumes "sessions_get srv sid = Some s" and "isUsed s"
  shows "filter (\<lambda>(c, r). fst c = sid \<and> valid r) (zip cs (fst (validate_seq cs srv))) = []"
  using validate_seq_consumed [OF assms, of cs] by (auto simp: filter_empty_conv)

lemma validate_valid_iff:
  "sessions_get srv sid = Some s \<Longrightarrow>
   valid (fst (validate sid now srv)) = (\<not> isExpired now s \<and> \<not> isUsed s)"
  by (simp add: validate_def Let_def)

lemma validate_seq_at_most_one:
  assumes "sessions_get srv sid = Some s" and "session.type s = Onetime"
  shows "length (filter (\<lambda>(c, r). fst c = sid \<and> valid r)
           (zip cs (fst (validate_seq cs srv)))) \<le> 1"
  using assms
proof (induction cs arbitrary: srv s)
  case Nil
  then show ?case by simp
next
  case (Cons c cs)
  let ?srv1 = "snd (validate (fst c) (snd c) srv)"
  let ?r = "fst (validate (fst c) (snd c) srv)"
  let ?rest = "filter (\<lambda>(c, r). fst c = sid \<and> valid r) (zip cs (fst (validate_seq cs ?srv1)))"
  have unroll: "zip (c # cs) (fst (validate_seq (c # cs) srv)) =
      (c, ?r) # zip cs (fst (validate_seq cs ?srv1))"
    by (simp add: split_beta Let_def)
  show ?case
  proof (cases "fst c = sid \<and> valid ?r")
    case True
    then have ok: "\<not> isExpired (snd c) s \<and> \<not> isUsed s"
      using validate_valid_iff [OF Cons.prems(1), of "snd c"] by auto
    have "sessions_get ?srv1 sid = Some (s\<lparr>session.used := Some True\<rparr>)"
      using True ok Cons.prems validate_same_key [OF Cons.prems(1), of "snd c"] by auto
    moreover have "isUsed (s\<lparr>session.used := Some True\<rparr>)"
      using Cons.prems(2) by (simp add: isUsed_def)
    ultimately have "?rest = []" by (rule validate_seq_no_valid_after)
    then show ?thesis using True unfolding unroll by simp
  next
    case False
    obtain s1 where s1: "sessions_get ?srv1 sid = Some s1" "session.type s1 = Onetime"
    proof (cases "fst c = sid")
      case True
      then show ?thesis
        using that Cons.prems validate_same_key [OF Cons.prems(1), of "snd c"] by auto
    next
      case False
      then show ?thesis
        using that Cons.prems validate_other_key [of sid "fst c" "snd c" srv] by auto
    qed
    have "length ?rest \<le> 1" using Cons.IH [OF s1] .
    then show ?thesis using False unfolding unroll by auto
  qed
qed

text \<open>
  C1, as the code has it. For a one-time session in the store, a validation made while
  it is unexpired and unused is answered with status 200 and \<open>valid = True\<close> and stores
  \<open>used = True\<close> in the same call. Every later validation of the same identifier is
  answered with \<open>valid = False\<close>: with the reason "One-time access already used" when it
  is made at or before \<open>expiresAt\<close>, and with "Session expired" when it is made after
  it. So in any run of validations at most one call on that identifier is answered with
  \<open>valid = True\<close>.
\<close>

theorem single_use_consumed_once:
  assumes "sessions_get srv sid = Some s" and "session.type s = Onetime"
  shows "(\<not> isExpired now s \<and> \<not> isUsed s \<longrightarrow>
            status (fst (validate sid now srv)) = 200
          \<and> valid (fst (validate sid now srv))
          \<and> sessions_get (snd (validate sid now srv)) sid = Some (s\<lparr>session.used := Some True\<rparr>)
          \<and> (\<forall>cs. \<forall>(c, r) \<in> set (zip cs (fst (validate_seq cs (snd (validate sid now srv))))).
                fst c = sid \<longrightarrow>
                  \<not> valid r \<and>
                  validate_response.error r = Some (if snd c > session.expiresAt s then ''Session expired''
                                  else ''One-time access already used'')))
       \<and> (\<forall>cs. length (filter (\<lambda>(c, r). fst c = sid \<and> valid r)
                  (zip cs (fst (validate_seq cs srv)))) \<le> 1)"
proof (intro conjI impI allI)
  assume ok: "\<not> isExpired now s \<and> \<not> isUsed s"
  show "status (fst (validate sid now srv)) = 200"
    using assms ok by (simp add: validate_def Let_def)
  show "valid (fst (validate sid now srv))"
    using assms ok by (simp add: validate_valid_iff)
  show after: "sessions_get (snd (validate sid now srv)) sid = Some (s\<lparr>session.used := Some True\<rparr>)"
    using assms ok by (simp add: validate_same_key)
  have used: "isUsed (s\<lparr>session.used := Some True\<rparr>)"
    using assms(2) by (simp add: isUsed_def)
  fix cs
  show "\<forall>(c, r) \<in> set (zip cs (fst (validate_seq cs (snd (validate sid now srv))))).
          fst c = sid \<longrightarrow>
            \<not> valid r \<and>
            validate_response.error r = Some (if snd c > session.expiresAt s then ''Session expired''
                            else ''One-time access already used'')"
    using validate_seq_consumed [OF after used, of cs] by (simp add: isExpired_def)
next
  fix cs
  show "length (filter (\<lambda>(c, r). fst c = sid \<and> valid r)
          (zip cs (fst (validate_seq cs srv)))) \<le> 1"
    using assms by (rule validate_seq_at_most_one)
qed

theorem single_use_consumed_once_witness:
  "valid (fst (validate ''S'' 1000 srv_demo))
   \<and> sessions_get (snd (validate ''S'' 1000 srv_demo)) ''S'' =
       Some \<lparr>session.id = ''S'', createdAt = 0, expiresAt = 300000, type = Onetime,
             used = Some True, walletAddress = None, transactionHash = None\<rparr>
   \<and> \<not> valid (fst (validate ''S'' 2000 (snd (validate ''S'' 1000 srv_demo))))
   \<and> validate_response.error (fst (validate ''S'' 2000 (snd (validate ''S'' 1000 srv_demo)))) =
       Some ''One-time access already used''
   \<and> length (filter (\<lambda>(c, r). fst c = ''S'' \<and> valid r)
        (zip [(''S'', 1000::int), (''D'', 1500), (''S'', 2000)]
           (fst (validate_seq [(''S'', 1000), (''D'', 1500), (''S'', 2000)] srv_demo)))) \<le> 1"
proof -
  let ?S = "\<lparr>session.id = ''S'', createdAt = 0, expiresAt = 300000, type = Onetime,
             used = Some False, walletAddress = None, transactionHash = None\<rparr>"
  have h2: "session.type ?S = Onetime" by simp
  have h3: "\<not> isExpired 1000 ?S \<and> \<not> isUsed ?S" by (simp add: isExpired_def isUsed_def)
  note th = single_use_consumed_once [OF srv_demo_S h2, of 1000]
  from th h3 have "valid (fst (validate ''S'' 1000 srv_demo))
      \<and> sessions_get (snd (validate ''S'' 1000 srv_demo)) ''S'' = Some (?S\<lparr>session.used := Some True\<rparr>)"
    by blast
  then have first: "valid (fst (validate ''S'' 1000 srv_demo))
      \<and> sessions_get (snd (validate ''S'' 1000 srv_demo)) ''S'' =
          Some \<lparr>session.id = ''S'', createdAt = 0, expiresAt = 300000, type = Onetime,
             used = Some True, walletAddress = None, transactionHash = None\<rparr>"
    by simp
  from th h3 have "\<forall>(c, r) \<in> set (zip [(''S'', 2000)]
        (fst (validate_seq [(''S'', 2000)] (snd (validate ''S'' 1000 srv_demo))))).
      fst c = ''S'' \<longrightarrow> \<not> valid r \<and>
        validate_response.error r = Some (if snd c > session.expiresAt ?S then ''Session expired''
                        else ''One-time access already used'')"
    by blast
  then have second: "\<not> valid (fst (validate ''S'' 2000 (snd (validate ''S'' 1000 srv_demo))))
      \<and> validate_response.error (fst (validate ''S'' 2000 (snd (validate ''S'' 1000 srv_demo)))) =
          Some ''One-time access already used''"
    by (simp add: split_beta Let_def)
  from th have count: "length (filter (\<lambda>(c, r). fst c = ''S'' \<and> valid r)
        (zip [(''S'', 1000::int), (''D'', 1500), (''S'', 2000)]
           (fst (validate_seq [(''S'', 1000), (''D'', 1500), (''S'', 2000)] srv_demo)))) \<le> 1"
    by blast
  from first second count show ?thesis by blast
qed

text \<open>
  The claim as stated asks for the already-used answer on every later validation. The
  one-time access \<open>S\<close> expires at 300000; validated at 1000 and again at 300001, the
  second answer is "Session expired".
\<close>

theorem later_validate_after_expiry_counterexample:
  "sessions_get srv_demo ''S'' =
     Some \<lparr>session.id = ''S'', createdAt = 0, expiresAt = 300000, type = Onetime,
           used = Some False, walletAddress = None, transactionHash = None\<rparr>
   \<and> valid (fst (validate ''S'' 1000 srv_demo))
   \<and> fst (validate ''S'' 300001 (snd (validate ''S'' 1000 srv_demo))) =
       \<lparr>status = 200, valid = False, error = Some ''Session expired'',
        session = Some \<lparr>session_view.id = ''S'', type = Onetime, createdAt = ISO 0,
           expiresAt = Some (ISO 300000), validFor = None, used = Some True,
           remainingTime = None, walletAddress = None, transactionHash = None\<rparr>\<rparr>
   \<and> validate_response.error (fst (validate ''S'' 300001 (snd (validate ''S'' 1000 srv_demo)))) \<noteq>
       Some ''One-time access already used''"
  by (simp add: srv_demo_S srv_demo_consumed validate_def sessions_get_set isExpired_def
      isUsed_def toISOString_def)

subsection \<open>What validation leaves alone\<close>

lemma validate_keys:
  "map fst (sessions (snd (validate sid now srv))) = map fst (sessions srv)"
proof (cases "sessions_get srv sid")
  case None
  then show ?thesis by (simp add: validate_def)
next
  case (Some s)
  then have "sid \<in> fst ` set (sessions srv)"
    by (auto simp: sessions_get_def dest: map_of_SomeD intro: rev_image_eqI)
  then show ?thesis using Some
    by (simp add: validate_def Let_def sessions_set_def update_keys)
qed

lemma validate_expired_unchanged:
  "sessions_get srv sid = Some s \<Longrightarrow> isExpired now s \<Longrightarrow> snd (validate sid now srv) = srv"
  by (simp add: validate_def)

lemma validate_seq_expired_keeps:
  assumes "sessions_get srv sid = Some s"
    and "\<forall>c \<in> set cs. fst c = sid \<longrightarrow> isExpired (snd c) s"
  shows "sessions_get (snd (validate_seq cs srv)) sid = Some s"
  using assms
proof (induction cs arbitrary: srv)
  case Nil
  then show ?case by simp
next
  case (Cons c cs)
  have "sessions_get (snd (validate (fst c) (snd c) srv)) sid = Some s"
  proof (cases "fst c = sid")
    case True
    then have "isExpired (snd c) s" using Cons.prems(2) by simp
    then show ?thesis
      using True Cons.prems(1) validate_expired_unchanged [of srv sid s "snd c"] by simp
  next
    case False
    then show ?thesis
      using Cons.prems(1) validate_other_key [of sid "fst c" "snd c" srv] by simp
  qed
  moreover have "\<forall>c \<in> set cs. fst c = sid \<longrightarrow> isExpired (snd c) s"
    using Cons.prems(2) by simp
  ultimately have "sessions_get (snd (validate_seq cs (snd (validate (fst c) (snd c) srv)))) sid = Some s"
    by (rule Cons.IH)
  then show ?case by (simp add: split_beta Let_def)
qed

text \<open>
  C9. A validation leaves the ledger, the configuration and the keys of the store as
  they are, and every session other than the one it looks up. When the identifier is
  unknown the state is unchanged. When it is found, the state is unchanged unless the
  session is an unexpired, unused one-time access, and then the session stored is the
  old one with \<open>used = True\<close>, all other fields as before. A session that is only ever
  validated after it has expired stays as it is through any run of validations, so a
  one-time access that expires unvalidated keeps \<open>used = False\<close>.
\<close>

theorem validate_frame:
  "payments (snd (validate sid now srv)) = payments srv
   \<and> network (snd (validate sid now srv)) = network srv
   \<and> payTo (snd (validate sid now srv)) = payTo srv
   \<and> map fst (sessions (snd (validate sid now srv))) = map fst (sessions srv)
   \<and> (\<forall>k. k \<noteq> sid \<longrightarrow> sessions_get (snd (validate sid now srv)) k = sessions_get srv k)
   \<and> (sessions_get srv sid = None \<longrightarrow> snd (validate sid now srv) = srv)
   \<and> (\<forall>s. sessions_get srv sid = Some s \<longrightarrow>
         (if session.type s = Onetime \<and> \<not> isExpired now s \<and> \<not> isUsed s
          then sessions_get (snd (validate sid now srv)) sid =
                 Some (s\<lparr>session.used := Some True\<rparr>)
          else snd (validate sid now srv) = srv))
   \<and> (\<forall>s cs. sessions_get srv sid = Some s
          \<and> (\<forall>c \<in> set cs. fst c = sid \<longrightarrow> isExpired (snd c) s) \<longrightarrow>
          sessions_get (snd (validate_seq cs srv)) sid = Some s)"
proof (intro conjI allI impI)
  show "payments (snd (validate sid now srv)) = payments srv"
    by (rule validate_payments)
  show "network (snd (validate sid now srv)) = network srv"
    by (simp add: validate_def Let_def sessions_set_def split: option.splits)
  show "payTo (snd (validate sid now srv)) = payTo srv"
    by (simp add: validate_def Let_def sessions_set_def split: option.splits)
  show "map fst (sessions (snd (validate sid now srv))) = map fst (sessions srv)"
    by (rule validate_keys)
next
  fix k assume "k \<noteq> sid"
  then show "sessions_get (snd (validate sid now srv)) k = sessions_get srv k"
    by (rule validate_other_key)
next
  assume "sessions_get srv sid = None"
  then show "snd (validate sid now srv) = srv" by (simp add: validate_def)
next
  fix s assume "sessions_get srv sid = Some s"
  then show "if session.type s = Onetime \<and> \<not> isExpired now s \<and> \<not> isUsed s
          then sessions_get (snd (validate sid now srv)) sid =
                 Some (s\<lparr>session.used := Some True\<rparr>)
          else snd (validate sid now srv) = srv"
    by (auto simp: validate_def Let_def sessions_get_set)
next
  fix s cs
  assume "sessions_get srv sid = Some s
          \<and> (\<forall>c \<in> set cs. fst c = sid \<longrightarrow> isExpired (snd c) s)"
  then show "sessions_get (snd (validate_seq cs srv)) sid = Some s"
    using validate_seq_expired_keeps [of srv sid s cs] by blast
qed

theorem validate_frame_witness:
  "sessions_get (snd (validate ''S'' 1000 srv_demo)) ''D'' = sessions_get srv_demo ''D''
   \<and> sessions_get (snd (validate ''S'' 1000 srv_demo)) ''S'' =
       Some \<lparr>session.id = ''S'', createdAt = 0, expiresAt = 300000, type = Onetime,
             used = Some True, walletAddress = None, transactionHash = None\<rparr>
   \<and> snd (validate ''nobody'' 1000 srv_demo) = srv_demo
   \<and> snd (validate ''D'' 1000 srv_demo) = srv_demo
   \<and> sessions_get (snd (validate_seq [(''S'', 300001), (''D'', 7), (''S'', 400000)] srv_demo)) ''S'' =
       Some \<lparr>session.id = ''S'', createdAt = 0, expiresAt = 300000, type = Onetime,
             used = Some False, walletAddress = None, transactionHash = None\<rparr>"
proof -
  let ?S = "\<lparr>session.id = ''S'', createdAt = 0, expiresAt = 300000, type = Onetime,
             used = Some False, walletAddress = None, transactionHash = None\<rparr>"
  let ?D = "\<lparr>session.id = ''D'', createdAt = 0, expiresAt = 86400000, type = Hour24,
             used = None, walletAddress = Some (JStr ''0xABC''), transactionHash = None\<rparr>"
  have n: "sessions_get srv_demo ''nobody'' = None"
    by (simp add: srv_demo_eq sessions_get_def)
  have k: "''D'' \<noteq> ''S''" by simp
  have fresh: "session.type ?S = Onetime \<and> \<not> isExpired 1000 ?S \<and> \<not> isUsed ?S"
    by (simp add: isExpired_def isUsed_def)
  have day: "\<not> (session.type ?D = Onetime \<and> \<not> isExpired 1000 ?D \<and> \<not> isUsed ?D)"
    by simp
  have late: "\<forall>c \<in> set [(''S'', 300001), (''D'', 7), (''S'', 400000)].
      fst c = ''S'' \<longrightarrow> isExpired (snd c) ?S"
    by (simp add: isExpired_def)
  note fS = validate_frame [of "''S''" 1000 srv_demo]
  from fS have "\<forall>k. k \<noteq> ''S'' \<longrightarrow>
      sessions_get (snd (validate ''S'' 1000 srv_demo)) k = sessions_get srv_demo k"
    by (elim conjE)
  with k have c1:
    "sessions_get (snd (validate ''S'' 1000 srv_demo)) ''D'' = sessions_get srv_demo ''D''"
    by (elim allE [of _ "''D''"]) (erule mp)
  from fS have "\<forall>s. sessions_get srv_demo ''S'' = Some s \<longrightarrow>
         (if session.type s = Onetime \<and> \<not> isExpired 1000 s \<and> \<not> isUsed s
          then sessions_get (snd (validate ''S'' 1000 srv_demo)) ''S'' =
                 Some (s\<lparr>session.used := Some True\<rparr>)
          else snd (validate ''S'' 1000 srv_demo) = srv_demo)"
    by (elim conjE)
  then have "if session.type ?S = Onetime \<and> \<not> isExpired 1000 ?S \<and> \<not> isUsed ?S
          then sessions_get (snd (validate ''S'' 1000 srv_demo)) ''S'' =
                 Some (?S\<lparr>session.used := Some True\<rparr>)
          else snd (validate ''S'' 1000 srv_demo) = srv_demo"
    using srv_demo_S by (elim allE [of _ ?S]) (erule mp)
  then have c2: "sessions_get (snd (validate ''S'' 1000 srv_demo)) ''S'' =
      Some (?S\<lparr>session.used := Some True\<rparr>)"
    using fresh by simp
  note fN = validate_frame [of "''nobody''" 1000 srv_demo]
  from fN have "sessions_get srv_demo ''nobody'' = None \<longrightarrow>
      snd (validate ''nobody'' 1000 srv_demo) = srv_demo"
    by (elim conjE)
  with n have c3: "snd (validate ''nobody'' 1000 srv_demo) = srv_demo" by (elim mp)
  note fD = validate_frame [of "''D''" 1000 srv_demo]
  from fD have "\<forall>s. sessions_get srv_demo ''D'' = Some s \<longrightarrow>
         (if session.type s = Onetime \<and> \<not> isExpired 1000 s \<and> \<not> isUsed s
          then sessions_get (snd (validate ''D'' 1000 srv_demo)) ''D'' =
                 Some (s\<lparr>session.used := Some True\<rparr>)
          else snd (validate ''D'' 1000 srv_demo) = srv_demo)"
    by (elim conjE)
  then have "if session.type ?D = Onetime \<and> \<not> isExpired 1000 ?D \<and> \<not> isUsed ?D
          then sessions_get (snd (validate ''D'' 1000 srv_demo)) ''D'' =
                 Some (?D\<lparr>session.used := Some True\<rparr>)
          else snd (validate ''D'' 1000 srv_demo) = srv_demo"
    using srv_demo_D by (elim allE [of _ ?D]) (erule mp)
  then have c4: "snd (validate ''D'' 1000 srv_demo) = srv_demo"
    using day by simp
  from fS have "\<forall>s cs. sessions_get srv_demo ''S'' = Some s
          \<and> (\<forall>c \<in> set cs. fst c = ''S'' \<longrightarrow> isExpired (snd c) s) \<longrightarrow>
          sessions_get (snd (validate_seq cs srv_demo)) ''S'' = Some s"
    by (elim conjE)
  then have c5: "sessions_get (snd (validate_seq [(''S'', 300001), (''D'', 7), (''S'', 400000)] srv_demo)) ''S'' =
      Some ?S"
    using srv_demo_S late by blast
  from c1 c2 c3 c4 c5 show ?thesis by simp
qed

subsection \<open>The ledger\<close>

lemma recordPayment_full:
  "length ps = MAX_PAYMENT_HISTORY \<Longrightarrow> recordPayment e ps = tl ps @ [e]"
  by (cases ps) (simp_all add: recordPayment_def MAX_PAYMENT_HISTORY_def)

lemma recordPayment_room:
  "length ps < MAX_PAYMENT_HISTORY \<Longrightarrow> recordPayment e ps = ps @ [e]"
  by (simp add: recordPayment_def)

lemma recordPayment_bound:
  "length ps \<le> MAX_PAYMENT_HISTORY \<Longrightarrow> length (recordPayment e ps) \<le> MAX_PAYMENT_HISTORY"
  by (simp add: recordPayment_def Let_def)

lemma recordPayment_drop:
  "\<exists>k. k \<le> 1 \<and> recordPayment e ps = drop k ps @ [e]"
proof (cases "length (ps @ [e]) > MAX_PAYMENT_HISTORY")
  case True
  then have "ps \<noteq> []" by (auto simp: MAX_PAYMENT_HISTORY_def)
  then have "recordPayment e ps = drop 1 ps @ [e]"
    using True by (cases ps) (simp_all add: recordPayment_def Let_def)
  then show ?thesis by blast
next
  case False
  then have "recordPayment e ps = drop 0 ps @ [e]"
    by (simp add: recordPayment_def Let_def)
  then show ?thesis by blast
qed

lemma post_pay_session_payments:
  "payments (snd (post_pay_session req sid now srv)) = payments srv \<or>
   (\<exists>e. payments (snd (post_pay_session req sid now srv)) = recordPayment e (payments srv))"
  by (auto simp: post_pay_session_def Let_def payments_sessions_set split: sum.splits)

lemma post_pay_onetime_payments:
  "payments (snd (post_pay_onetime req sid now srv)) = payments srv \<or>
   (\<exists>e. payments (snd (post_pay_onetime req sid now srv)) = recordPayment e (payments srv))"
  by (auto simp: post_pay_onetime_def Let_def payments_sessions_set split: sum.splits)

lemma handle_payments:
  "payments (snd (handle r srv)) = payments srv \<or>
   (\<exists>e. payments (snd (handle r srv)) = recordPayment e (payments srv))"
proof (cases r)
  case (PostPaySession req sid now)
  then show ?thesis using post_pay_session_payments [of req sid now srv] by simp
next
  case (PostPayOnetime req sid now)
  then show ?thesis using post_pay_onetime_payments [of req sid now srv] by simp
next
  case (GetSession sid now)
  then show ?thesis by (simp add: get_session_def split_beta validate_payments)
qed (simp_all add: get_health_def get_payment_options_def get_sessions_def get_payments_def Let_def)

lemma handle_bound:
  "length (payments srv) \<le> MAX_PAYMENT_HISTORY \<Longrightarrow>
   length (payments (snd (handle r srv))) \<le> MAX_PAYMENT_HISTORY"
  using handle_payments [of r srv] recordPayment_bound by auto

lemma run_bound:
  "length (payments srv) \<le> MAX_PAYMENT_HISTORY \<Longrightarrow>
   length (payments (snd (run rs srv))) \<le> MAX_PAYMENT_HISTORY"
proof (induction rs arbitrary: srv)
  case Nil
  then show ?case by simp
next
  case (Cons r rs)
  have "length (payments (snd (handle r srv))) \<le> MAX_PAYMENT_HISTORY"
    using Cons.prems by (rule handle_bound)
  then have "length (payments (snd (run rs (snd (handle r srv))))) \<le> MAX_PAYMENT_HISTORY"
    by (rule Cons.IH)
  then show ?case by (simp add: split_beta Let_def)
qed

text \<open>
  C3. After any run of requests from the empty server the ledger holds at most
  \<open>MAX_PAYMENT_HISTORY = 100\<close> entries. Appending keeps the bound; appending to a ledger of
  100 entries drops the oldest entry and puts the new one last; appending to a shorter
  ledger only puts the new one last. Every request leaves the ledger as it was, apart
  from at most one entry dropped at the head and at most one added at the tail: the
  entries that stay are unchanged and in their order.
\<close>

theorem ledger_bounded_fifo:
  "length (payments (snd (run rs (boot net addr)))) \<le> MAX_PAYMENT_HISTORY
   \<and> MAX_PAYMENT_HISTORY = 100
   \<and> (length ps \<le> MAX_PAYMENT_HISTORY \<longrightarrow> length (recordPayment e ps) \<le> MAX_PAYMENT_HISTORY)
   \<and> (length ps = MAX_PAYMENT_HISTORY \<longrightarrow> recordPayment e ps = tl ps @ [e])
   \<and> (length ps < MAX_PAYMENT_HISTORY \<longrightarrow> recordPayment e ps = ps @ [e])
   \<and> (\<exists>k es. k \<le> 1 \<and> length es \<le> 1 \<and>
         payments (snd (handle r srv)) = drop k (payments srv) @ es)"
proof (intro conjI impI)
  show "length (payments (snd (run rs (boot net addr)))) \<le> MAX_PAYMENT_HISTORY"
    by (rule run_bound) (simp add: boot_def)
  show "MAX_PAYMENT_HISTORY = 100" by (rule MAX_PAYMENT_HISTORY_def)
  show "\<exists>k es. k \<le> 1 \<and> length es \<le> 1 \<and>
         payments (snd (handle r srv)) = drop k (payments srv) @ es"
  proof -
    from handle_payments [of r srv] show ?thesis
    proof
      assume "payments (snd (handle r srv)) = payments srv"
      then have "(0::nat) \<le> 1 \<and> length ([]::paymentRecord list) \<le> 1 \<and>
         payments (snd (handle r srv)) = drop 0 (payments srv) @ []" by simp
      then show ?thesis by blast
    next
      assume "\<exists>e. payments (snd (handle r srv)) = recordPayment e (payments srv)"
      then obtain e where e: "payments (snd (handle r srv)) = recordPayment e (payments srv)" ..
      obtain k where "k \<le> 1" "recordPayment e (payments srv) = drop k (payments srv) @ [e]"
        using recordPayment_drop by blast
      with e have "k \<le> 1 \<and> length [e] \<le> 1 \<and>
         payments (snd (handle r srv)) = drop k (payments srv) @ [e]" by simp
      then show ?thesis by blast
    qed
  qed
qed (simp_all add: recordPayment_full recordPayment_room recordPayment_bound)

theorem ledger_bounded_fifo_witness:
  "length full_ledger = MAX_PAYMENT_HISTORY
   \<and> recordPayment (ledger_entry 101) full_ledger = tl full_ledger @ [ledger_entry 101]
   \<and> length (recordPayment (ledger_entry 101) full_ledger) \<le> MAX_PAYMENT_HISTORY
   \<and> length [ledger_entry 1] < MAX_PAYMENT_HISTORY
   \<and> recordPayment (ledger_entry 2) [ledger_entry 1] = [ledger_entry 1] @ [ledger_entry 2]"
proof -
  have full: "length full_ledger = MAX_PAYMENT_HISTORY"
    by (simp add: full_ledger_def MAX_PAYMENT_HISTORY_def)
  then have le: "length full_ledger \<le> MAX_PAYMENT_HISTORY" by simp
  have room: "length [ledger_entry 1] < MAX_PAYMENT_HISTORY"
    by (simp add: MAX_PAYMENT_HISTORY_def)
  note th = ledger_bounded_fifo [of "[]" "''n''" "''a''" full_ledger "ledger_entry 101"
      GetHealth srv_demo]
  from th full have c1: "recordPayment (ledger_entry 101) full_ledger =
       tl full_ledger @ [ledger_entry 101]" by blast
  from th le have c2:
    "length (recordPayment (ledger_entry 101) full_ledger) \<le> MAX_PAYMENT_HISTORY"
    by blast
  from ledger_bounded_fifo [of "[]" "''n''" "''a''" "[ledger_entry 1]" "ledger_entry 2"
      GetHealth srv_demo] room
  have c3: "recordPayment (ledger_entry 2) [ledger_entry 1] = [ledger_entry 1] @ [ledger_entry 2]"
    by blast
  from full c1 c2 room c3 show ?thesis by blast
qed

subsection \<open>Purchases\<close>

text \<open>
  C7. A purchase that is answered stores a session under the new identifier whose
  \<open>createdAt\<close> is the time of the call and whose \<open>expiresAt - createdAt\<close> is
  24 * 60 * 60 * 1000 ms for a 24-hour session and 5 * 60 * 1000 ms for a one-time access.
\<close>

theorem purchase_lifetime:
  "(\<forall>r srv'. post_pay_session req sid now srv = (Inr r, srv') \<longrightarrow>
      (\<exists>s. sessions_get srv' sid = Some s \<and> session.type s = Hour24 \<and> session.createdAt s = now
          \<and> session.expiresAt s - session.createdAt s = 24 * 60 * 60 * 1000))
   \<and> (\<forall>r srv'. post_pay_onetime req sid now srv = (Inr r, srv') \<longrightarrow>
      (\<exists>s. sessions_get srv' sid = Some s \<and> session.type s = Onetime \<and> session.createdAt s = now
          \<and> session.expiresAt s - session.createdAt s = 5 * 60 * 1000))"
  by (auto simp: post_pay_session_def post_pay_onetime_def Let_def sessions_get_set
      sessions_get_def sessions_set_def update_conv' split: sum.splits)

theorem purchase_lifetime_witness:
  "(\<exists>s. sessions_get srv_demo ''S'' = Some s \<and> session.type s = Onetime
        \<and> session.expiresAt s - session.createdAt s = 300000)
   \<and> (\<exists>s. sessions_get (snd (post_pay_session Rejects ''D'' 0 (boot ''n'' ''a''))) ''D'' = Some s
        \<and> session.type s = Hour24 \<and> session.expiresAt s - session.createdAt s = 86400000)"
proof -
  let ?srv = "snd (post_pay_session (Resolves (JObj [(''walletAddress'', JStr ''0xABC'')])) ''D'' 0
          (boot ''monad-testnet'' ''0x000000000000000000000000000000000000dEaD''))"
  obtain r1 where h1: "post_pay_onetime Rejects ''S'' 0 ?srv = (Inr r1, srv_demo)"
    by (simp add: srv_demo_def post_pay_onetime_def parsePaymentRequest_def Let_def)
  obtain r2 where h2: "post_pay_session Rejects ''D'' 0 (boot ''n'' ''a'') =
      (Inr r2, snd (post_pay_session Rejects ''D'' 0 (boot ''n'' ''a'')))"
    by (simp add: post_pay_session_def parsePaymentRequest_def Let_def)
  from purchase_lifetime [of Rejects "''S''" 0 ?srv] h1
  have c1: "\<exists>s. sessions_get srv_demo ''S'' = Some s \<and> session.type s = Onetime
        \<and> session.expiresAt s - session.createdAt s = 300000"
    by fastforce
  from purchase_lifetime [of Rejects "''D''" 0 "boot ''n'' ''a''"] h2
  have c2: "\<exists>s. sessions_get (snd (post_pay_session Rejects ''D'' 0 (boot ''n'' ''a''))) ''D'' = Some s
        \<and> session.type s = Hour24 \<and> session.expiresAt s - session.createdAt s = 86400000"
    by fastforce
  from c1 c2 show ?thesis by simp
qed

text \<open>
  C8. The request body \<^verbatim>\<open>null\<close> parses, so the empty-object fallback is not
  used; reading \<^verbatim>\<open>body.walletAddress\<close> then throws a TypeError out of both purchase
  handlers before a session is stored or a payment recorded.
\<close>

theorem null_body_throws:
  "post_pay_session (Resolves JNull) sid now srv = (Inl TypeError, srv)
   \<and> post_pay_onetime (Resolves JNull) sid now srv = (Inl TypeError, srv)"
  by (simp add: post_pay_session_def post_pay_onetime_def parsePaymentRequest_def)

text \<open>
  Every other body, parsable or not, is answered with \<open>success = True\<close>; a session is
  stored and a payment recorded.
\<close>

lemma get_prop_ok: "body \<noteq> JNull \<Longrightarrow> \<exists>v. get_prop body k = Inr v"
  by (cases body) simp_all

lemma parsed_body_not_null:
  "req \<noteq> Resolves JNull \<Longrightarrow> parsePaymentRequest req (JObj []) \<noteq> JNull"
  by (cases req) (simp_all add: parsePaymentRequest_def)

lemma purchase_succeeds_unless_null:
  assumes "req \<noteq> Resolves JNull"
  shows "\<exists>r. fst (post_pay_session req sid now srv) = Inr (Paid r) \<and> success r \<and> sessionId r = sid
          \<and> sessions_get (snd (post_pay_session req sid now srv)) sid \<noteq> None
          \<and> (\<exists>e. payments (snd (post_pay_session req sid now srv)) = recordPayment e (payments srv))"
proof -
  have nn: "parsePaymentRequest req (JObj []) \<noteq> JNull"
    using assms by (rule parsed_body_not_null)
  obtain w t m where
    "get_prop (parsePaymentRequest req (JObj [])) ''walletAddress'' = Inr w"
    "get_prop (parsePaymentRequest req (JObj [])) ''transactionHash'' = Inr t"
    "get_prop (parsePaymentRequest req (JObj [])) ''metadata'' = Inr m"
    using get_prop_ok [OF nn] by metis
  then show ?thesis
    by (auto simp: post_pay_session_def Let_def sessions_get_def sessions_set_def update_conv')
qed

lemma onetime_purchase_succeeds_unless_null:
  assumes "req \<noteq> Resolves JNull"
  shows "\<exists>r. fst (post_pay_onetime req sid now srv) = Inr (Paid r) \<and> success r \<and> sessionId r = sid
          \<and> sessions_get (snd (post_pay_onetime req sid now srv)) sid \<noteq> None
          \<and> (\<exists>e. payments (snd (post_pay_onetime req sid now srv)) = recordPayment e (payments srv))"
proof -
  have nn: "parsePaymentRequest req (JObj []) \<noteq> JNull"
    using assms by (rule parsed_body_not_null)
  obtain w t m where
    "get_prop (parsePaymentRequest req (JObj [])) ''walletAddress'' = Inr w"
    "get_prop (parsePaymentRequest req (JObj [])) ''transactionHash'' = Inr t"
    "get_prop (parsePaymentRequest req (JObj [])) ''metadata'' = Inr m"
    using get_prop_ok [OF nn] by metis
  then show ?thesis
    by (auto simp: post_pay_onetime_def Let_def sessions_get_def sessions_set_def update_conv')
qed

section \<open>Properties of the wallet connector\<close>

subsection \<open>The start of a call\<close>

lemma connect_start_provider:
  assumes "pickProvider w = Some eth"
  shows "connect_start w =
    ([SetError None, SetIsConnecting True, Request eth ''eth_requestAccounts'' NoParams],
     Some (AwaitAccounts eth))"
  using assms by (cases w) (simp_all add: connect_start_def)

lemma connect_start_undefined:
  "connect_start Undefined =
    ([SetError None, SetIsConnecting True, SetError (Some InstallWallet), SetIsConnecting False],
     None)"
  by (simp add: connect_start_def fail_def)

lemma continue_done: "continue sc (evs, None) = (evs, None)"
  by (simp add: continue_def)

lemma continue_pending: "continue sc (evs, Some p) = (evs @ fst (resume sc p), snd (resume sc p))"
  by (simp add: continue_def)
lemma connecting_client_eq:
  "connecting_client =
     \<lparr>state = \<lparr>isConnected = False, address = None, walletClient = None,
               wallet_state.error = None, isConnecting = True\<rparr>,
      inflight = [AwaitAccounts 1],
      log = [SetError None, SetIsConnecting True, Request 1 ''eth_requestAccounts'' NoParams]\<rparr>"
  by (simp add: connecting_client_def one_wallet_def call_connect_def connect_start_def
      apply_effects_def initial_client_def initial_state_def)

text \<open>
  When \<^verbatim>\<open>window.ethereum\<close> is undefined, a call of \<^verbatim>\<open>connectWallet\<close> ends
  without an await, with the install-a-wallet message as its error: it sends no request
  to any provider and leaves nothing suspended. \<open>isConnecting\<close> is set and reset
  inside the one stretch, so the state committed after the call has the error set and
  \<open>isConnecting\<close> false, and no state with \<open>isConnecting\<close> true is committed.
\<close>

lemma connect_without_provider:
  "connectWallet sc Undefined =
     ([SetError None, SetIsConnecting True, SetError (Some InstallWallet),
       SetIsConnecting False], None)
   \<and> requests_of (fst (connectWallet sc Undefined)) = []
   \<and> apply_effects (fst (connectWallet sc Undefined)) s =
       s\<lparr>wallet_state.error := Some InstallWallet, isConnecting := False\<rparr>
   \<and> call_connect Undefined c =
       \<lparr>state = (state c)\<lparr>wallet_state.error := Some InstallWallet, isConnecting := False\<rparr>,
        inflight = inflight c,
        log = log c @ [SetError None, SetIsConnecting True, SetError (Some InstallWallet),
                       SetIsConnecting False]\<rparr>"
  by (simp add: connectWallet_def connect_start_undefined continue_done requests_of_def
      apply_effects_def call_connect_def)

lemma connect_empty_array:
  "connect_start (Many []) =
     ([SetError None, SetIsConnecting True, SetError (Some ConnectFailedTypeError),
       SetIsConnecting False], None)"
  by (simp add: connect_start_def fail_def)

text \<open>
  C6. With \<^verbatim>\<open>window.ethereum\<close> an empty array no provider is present either, but
  the test at line 70 passes, line 78 selects the undefined first element, and the
  request on it at line 87 throws a TypeError that line 100 wraps. The call ends without
  an await and without a request, and the state committed after it is not connecting,
  but the error it stores is the connection-failed message with the text of the
  TypeError, not the install-a-wallet message that reports a missing provider.
\<close>

theorem empty_provider_array_not_reported:
  "connectWallet sc (Many []) =
     ([SetError None, SetIsConnecting True, SetError (Some ConnectFailedTypeError),
       SetIsConnecting False], None)
   \<and> requests_of (fst (connectWallet sc (Many []))) = []
   \<and> call_connect (Many []) c =
       \<lparr>state = (state c)\<lparr>wallet_state.error := Some ConnectFailedTypeError,
                          isConnecting := False\<rparr>,
        inflight = inflight c,
        log = log c @ [SetError None, SetIsConnecting True,
                       SetError (Some ConnectFailedTypeError), SetIsConnecting False]\<rparr>
   \<and> wallet_state.error (state (call_connect (Many []) c)) = Some ConnectFailedTypeError
   \<and> wallet_state.error (state (call_connect (Many []) c)) \<noteq> Some InstallWallet"
  by (simp add: connectWallet_def connect_empty_array continue_done requests_of_def
      apply_effects_def call_connect_def)

text \<open>
  C4, as the code has it. \<^verbatim>\<open>connectWallet\<close> has no guard against a call in flight:
  whatever the state and the suspended calls, a call that selects a provider sets
  \<open>isConnecting\<close>, sends its own \<^verbatim>\<open>eth_requestAccounts\<close> to that provider and
  suspends on it; it is neither ignored nor queued.
\<close>

theorem connect_has_no_reentrancy_guard:
  assumes "pickProvider w = Some eth"
  shows "log (call_connect w c) =
           log c @ [SetError None, SetIsConnecting True,
                    Request eth ''eth_requestAccounts'' NoParams]
       \<and> inflight (call_connect w c) = inflight c @ [AwaitAccounts eth]
       \<and> isConnecting (state (call_connect w c))"
  by (simp add: call_connect_def connect_start_provider [OF assms] apply_effects_def)

theorem connect_has_no_reentrancy_guard_witness:
  "isConnecting (state connecting_client)
   \<and> inflight connecting_client = [AwaitAccounts 1]
   \<and> log (call_connect one_wallet connecting_client) =
       log connecting_client @ [SetError None, SetIsConnecting True,
                    Request 1 ''eth_requestAccounts'' NoParams]
   \<and> inflight (call_connect one_wallet connecting_client) = [AwaitAccounts 1, AwaitAccounts 1]"
proof -
  have h: "pickProvider one_wallet = Some (1::nat)" by (simp add: one_wallet_def)
  have c: "isConnecting (state connecting_client) \<and> inflight connecting_client = [AwaitAccounts 1]"
    by (simp add: connecting_client_eq)
  from connect_has_no_reentrancy_guard [OF h, of connecting_client] c
  show ?thesis by simp
qed

text \<open>
  The claim as stated says a call made while another is in flight sends no second
  authorization request. With one call suspended on \<^verbatim>\<open>eth_requestAccounts\<close> and
  \<open>isConnecting\<close> true, a second call sends the request again.
\<close>

theorem second_connect_requests_accounts_counterexample:
  "isConnecting (state connecting_client)
   \<and> inflight connecting_client = [AwaitAccounts 1]
   \<and> requests_of (log connecting_client) = [Request 1 ''eth_requestAccounts'' NoParams]
   \<and> requests_of (log (call_connect one_wallet connecting_client)) =
       [Request 1 ''eth_requestAccounts'' NoParams, Request 1 ''eth_requestAccounts'' NoParams]"
  by (simp add: connecting_client_eq one_wallet_def call_connect_def connect_start_def
      apply_effects_def requests_of_def)

subsection \<open>Network verification\<close>

text \<open>
  C5, as the code has it. When an account was returned and the provider's chain id is
  not \<open>0x279F\<close>, the call requests \<^verbatim>\<open>wallet_switchEthereumChain\<close>. When that request
  is rejected with code 4902, the call requests \<^verbatim>\<open>wallet_addEthereumChain\<close> with the
  definition of Monad Testnet, and no request follows it: the switch is not requested
  again, and when the definition is accepted the call goes on to bind the wallet client
  and the address and to set \<open>isConnected\<close>. In every case the call ends, and the switch
  is requested once.
\<close>

theorem network_verification:
  assumes "pickProvider w = Some eth"
    and "on_requestAccounts sc = Inr (acct # others)"
    and "on_chainId sc = Inr cid"
    and "cid \<noteq> monadTestnetChainIdHex"
  shows "snd (connectWallet sc w) = None
       \<and> requests_of (fst (connectWallet sc w)) =
           [Request eth ''eth_requestAccounts'' NoParams, Request eth ''eth_chainId'' NoParams,
            Request eth ''wallet_switchEthereumChain'' (SwitchChain monadTestnetChainIdHex)]
           @ (case on_switch sc of
                Inl e \<Rightarrow> if code e = Some 4902
                         then [Request eth ''wallet_addEthereumChain''
                                 (AddChain monad_testnet_definition)]
                         else []
              | Inr u \<Rightarrow> [])
       \<and> (\<forall>e. on_switch sc = Inl e \<and> code e = Some 4902 \<and> on_add sc = Inr () \<longrightarrow>
            fst (connectWallet sc w) =
              [SetError None, SetIsConnecting True,
               Request eth ''eth_requestAccounts'' NoParams, Request eth ''eth_chainId'' NoParams,
               Request eth ''wallet_switchEthereumChain'' (SwitchChain monadTestnetChainIdHex),
               Request eth ''wallet_addEthereumChain'' (AddChain monad_testnet_definition),
               SetWalletClient (Some \<lparr>account = acct, transport = eth\<rparr>),
               SetAddress (Some acct), SetIsConnected True, SetIsConnecting False])"
proof -
  have step3: "continue sc (continue sc (connect_start w)) =
      ([SetError None, SetIsConnecting True,
        Request eth ''eth_requestAccounts'' NoParams, Request eth ''eth_chainId'' NoParams,
        Request eth ''wallet_switchEthereumChain'' (SwitchChain monadTestnetChainIdHex)],
       Some (AwaitSwitch eth acct))"
    using assms
    by (simp add: connect_start_provider continue_pending after_accounts_def after_chainId_def)
  show ?thesis
  proof (cases "on_switch sc")
    case (Inr u)
    then show ?thesis
      by (simp add: connectWallet_def step3 continue_pending continue_done after_switch_def
          finish_def requests_of_def)
  next
    case (Inl e)
    show ?thesis
    proof (cases "code e = Some 4902")
      case True
      then show ?thesis using Inl
        by (cases "on_add sc")
          (simp_all add: connectWallet_def step3 continue_pending continue_done after_switch_def
            after_add_def finish_def fail_def requests_of_def)
    next
      case False
      then show ?thesis using Inl
        by (simp add: connectWallet_def step3 continue_pending continue_done after_switch_def
            fail_def requests_of_def)
    qed
  qed
qed

theorem network_verification_witness:
  "requests_of (fst (connectWallet unknown_chain_wallet one_wallet)) =
     [Request 1 ''eth_requestAccounts'' NoParams, Request 1 ''eth_chainId'' NoParams,
      Request 1 ''wallet_switchEthereumChain'' (SwitchChain monadTestnetChainIdHex),
      Request 1 ''wallet_addEthereumChain'' (AddChain monad_testnet_definition)]
   \<and> snd (connectWallet unknown_chain_wallet one_wallet) = None
   \<and> fst (connectWallet unknown_chain_wallet one_wallet) =
       [SetError None, SetIsConnecting True,
        Request 1 ''eth_requestAccounts'' NoParams, Request 1 ''eth_chainId'' NoParams,
        Request 1 ''wallet_switchEthereumChain'' (SwitchChain monadTestnetChainIdHex),
        Request 1 ''wallet_addEthereumChain'' (AddChain monad_testnet_definition),
        SetWalletClient (Some \<lparr>account = ''0xA11CE'', transport = 1\<rparr>),
        SetAddress (Some ''0xA11CE''), SetIsConnected True, SetIsConnecting False]"
proof -
  have h1: "pickProvider one_wallet = Some (1::nat)" by (simp add: one_wallet_def)
  have h2: "on_requestAccounts unknown_chain_wallet = Inr (''0xA11CE'' # [])"
    by (simp add: unknown_chain_wallet_def)
  have h3: "on_chainId unknown_chain_wallet = Inr ''0x1''"
    by (simp add: unknown_chain_wallet_def)
  have h4: "''0x1'' \<noteq> monadTestnetChainIdHex" by (simp add: monadTestnetChainIdHex_def)
  have h5: "on_switch unknown_chain_wallet =
      Inl \<lparr>code = Some 4902, message = Some ''Unrecognized chain ID''\<rparr>
    \<and> code \<lparr>code = Some 4902, message = Some ''Unrecognized chain ID''\<rparr> = Some 4902
    \<and> on_add unknown_chain_wallet = Inr ()"
    by (simp add: unknown_chain_wallet_def)
  note th = network_verification [OF h1 h2 h3 h4]
  from th have p1: "snd (connectWallet unknown_chain_wallet one_wallet) = None"
    by (elim conjE)
  from th have "requests_of (fst (connectWallet unknown_chain_wallet one_wallet)) =
      [Request 1 ''eth_requestAccounts'' NoParams, Request 1 ''eth_chainId'' NoParams,
       Request 1 ''wallet_switchEthereumChain'' (SwitchChain monadTestnetChainIdHex)]
      @ (case on_switch unknown_chain_wallet of
           Inl e \<Rightarrow> if code e = Some 4902
                    then [Request 1 ''wallet_addEthereumChain''
                            (AddChain monad_testnet_definition)]
                    else []
         | Inr u \<Rightarrow> [])"
    by (elim conjE)
  then have p2: "requests_of (fst (connectWallet unknown_chain_wallet one_wallet)) =
     [Request 1 ''eth_requestAccounts'' NoParams, Request 1 ''eth_chainId'' NoParams,
      Request 1 ''wallet_switchEthereumChain'' (SwitchChain monadTestnetChainIdHex),
      Request 1 ''wallet_addEthereumChain'' (AddChain monad_testnet_definition)]"
    using h5 by simp
  from th h5 have p3: "fst (connectWallet unknown_chain_wallet one_wallet) =
       [SetError None, SetIsConnecting True,
        Request 1 ''eth_requestAccounts'' NoParams, Request 1 ''eth_chainId'' NoParams,
        Request 1 ''wallet_switchEthereumChain'' (SwitchChain monadTestnetChainIdHex),
        Request 1 ''wallet_addEthereumChain'' (AddChain monad_testnet_definition),
        SetWalletClient (Some \<lparr>account = ''0xA11CE'', transport = 1\<rparr>),
        SetAddress (Some ''0xA11CE''), SetIsConnected True, SetIsConnecting False]"
    by blast
  from p1 p2 p3 show ?thesis by blast
qed

text \<open>
  The claim as stated says the switch request is retried once after the network was
  registered. Against a wallet that rejects the switch with code 4902 and accepts the
  definition, the call sends four requests; the switch is among them once, before the
  registration, and the call ends connected.
\<close>

theorem switch_not_retried_counterexample:
  "map request_method (requests_of (fst (connectWallet unknown_chain_wallet one_wallet))) =
     [''eth_requestAccounts'', ''eth_chainId'', ''wallet_switchEthereumChain'',
      ''wallet_addEthereumChain'']
   \<and> count_list (map request_method
        (requests_of (fst (connectWallet unknown_chain_wallet one_wallet))))
        ''wallet_switchEthereumChain'' = 1
   \<and> snd (connectWallet unknown_chain_wallet one_wallet) = None
   \<and> isConnected (apply_effects (fst (connectWallet unknown_chain_wallet one_wallet))
        initial_state)"
  by (simp add: connectWallet_def connect_start_def one_wallet_def unknown_chain_wallet_def
      continue_def after_accounts_def after_chainId_def after_switch_def after_add_def
      finish_def fail_def requests_of_def monadTestnetChainIdHex_def apply_effects_def
      initial_state_def)

end
